theory Spec2Isabelle
  imports Main "HOL-Library.Sublist"
begin

section \<open>Data model\<close>

text \<open>
  The coordinate convention of a position pair (\<open>cool_seq_tool.schemas.ResidueMode\<close>):
  \<open>RESIDUE\<close> is 1-based inclusive, \<open>INTER_RESIDUE\<close> is 0-based between residues.
\<close>

datatype ResidueMode = RESIDUE | INTER_RESIDUE

text \<open>
  The exceptions the modelled code can raise. A raised exception is the \<open>Inl\<close> side of a
  sum; a returned value is the \<open>Inr\<close> side.
\<close>

datatype py_exception = FeatureOverlapError string | IndexError

text \<open>
  One line of the GFF file as \<open>pd.read_csv\<close> delivers it with \<open>usecols=[0, 2, 3, 4, 8]\<close>
  and the column names of line 48 of \<open>feature_overlap.py\<close>.
\<close>

record gff_row =
  gff_chromosome :: string
  gff_type :: string
  gff_cds_start :: int
  gff_cds_stop :: int
  gff_info :: string

text \<open>
  One row of the data frame \<open>self.df\<close> that \<open>_load_mane_refseq_gff_data\<close> returns
  (columns \<open>type\<close>, \<open>chromosome\<close>, \<open>cds_start\<close>, \<open>cds_stop\<close>, \<open>info_name\<close>, \<open>gene\<close>;
  the column \<open>type\<close> is the field \<open>ftype\<close>).
\<close>

record cds_row =
  ftype :: string
  chromosome :: string
  cds_start :: int
  cds_stop :: int
  info_name :: string
  gene :: string

text \<open>
  One record of the returned dictionary. \<open>set_index("info_name")\<close> followed by
  \<open>to_dict(orient="records")\<close> leaves the four columns below; the fields \<open>rec_cds_start\<close>
  and \<open>rec_cds_stop\<close> are the keys \<open>cds_start\<close> and \<open>cds_stop\<close> of the Python record.
\<close>

record cds_overlap =
  rec_cds_start :: int
  rec_cds_stop :: int
  overlap_start :: int
  overlap_stop :: int

text \<open>
  The returned dictionary, from gene symbol to the list of its records. A Python dictionary
  compares by its key/value pairs, so it is a map.
\<close>

type_synonym overlap_dict = "string \<Rightarrow> cds_overlap list option"

section \<open>Python primitives used by the source\<close>

text \<open>
  \<open>if x:\<close> on an \<open>Optional[str]\<close>: \<open>None\<close> and the empty string are both false. The result
  is the string when the test succeeds.
\<close>

fun py_truthy :: "string option \<Rightarrow> string option" where
  "py_truthy None = None"
| "py_truthy (Some s) = (if s = [] then None else Some s)"

text \<open>\<open>s.strip(chars)\<close>: removes from both ends every character that occurs in \<open>chars\<close>.\<close>

definition py_strip :: "string \<Rightarrow> string \<Rightarrow> string" where
  "py_strip chars s =
     rev (dropWhile (\<lambda>c. c \<in> set chars) (rev (dropWhile (\<lambda>c. c \<in> set chars) s)))"

text \<open>\<open>s.split(sep)\<close> for a separator of one character.\<close>

fun py_split :: "char \<Rightarrow> string \<Rightarrow> string list" where
  "py_split sep [] = [[]]"
| "py_split sep (c # cs) =
     (if c = sep then [] # py_split sep cs
      else (case py_split sep cs of
              [] \<Rightarrow> [[c]]
            | x # xs \<Rightarrow> (c # x) # xs))"

text \<open>\<open>xs[0]\<close>: raises \<open>IndexError\<close> on the empty list.\<close>

definition py_index0 :: "'a list \<Rightarrow> py_exception + 'a" where
  "py_index0 xs = (case xs of [] \<Rightarrow> Inl IndexError | x # _ \<Rightarrow> Inr x)"

text \<open>
  \<open>re.findall(key + "([^;]+)", text)\<close>: the captured groups of the non-overlapping matches,
  leftmost first. A match starts where \<open>key\<close> is followed by at least one character other
  than \<open>;\<close> and captures the longest run of such characters; the scan resumes after it.
\<close>

function re_findall_token :: "string \<Rightarrow> string \<Rightarrow> string list" where
  "re_findall_token key [] = []"
| "re_findall_token key (c # cs) =
     (let v = takeWhile (\<lambda>x. x \<noteq> CHR '';'') (drop (length key) (c # cs))
      in if prefix key (c # cs) \<and> v \<noteq> []
         then v # re_findall_token key (drop (length key + length v) (c # cs))
         else re_findall_token key cs)"
  by pat_completeness auto
termination
  by (relation "measure (\<lambda>(key, s). length s)") auto

text \<open>
  The regular-expression atom \<open>$\<close> (no \<open>MULTILINE\<close> flag): it matches at the end of the
  string and just before a newline that is the last character.
\<close>

definition py_dollar :: "string \<Rightarrow> bool" where
  "py_dollar rest = (rest = [] \<or> rest = [CHR 0x0A])"

text \<open>A character class \<open>[lo-hi]\<close>.\<close>

definition in_class :: "char \<Rightarrow> char \<Rightarrow> char \<Rightarrow> bool" where
  "in_class lo hi c = ((of_char lo :: nat) \<le> of_char c \<and> (of_char c :: nat) \<le> of_char hi)"

text \<open>
  The group \<open>([1-9]|1[0-9]|2[0-2])\<close>: the prefixes of \<open>s\<close> it can match, in the order in
  which the alternatives are tried.
\<close>

definition autosome_group :: "string \<Rightarrow> string list" where
  "autosome_group s =
     (case s of
        c # _ \<Rightarrow> if in_class (CHR ''1'') (CHR ''9'') c then [[c]] else []
      | [] \<Rightarrow> [])
     @ (case s of
          c # d # _ \<Rightarrow> if c = CHR ''1'' \<and> in_class (CHR ''0'') (CHR ''9'') d then [[c, d]] else []
        | _ \<Rightarrow> [])
     @ (case s of
          c # d # _ \<Rightarrow> if c = CHR ''2'' \<and> in_class (CHR ''0'') (CHR ''2'') d then [[c, d]] else []
        | _ \<Rightarrow> [])"

text \<open>
  Line 137: \<open>re.match(r"^X|Y|([1-9]|1[0-9]|2[0-2])$", chromosome)\<close>. Alternation binds
  weakest, so the pattern has three alternatives: \<open>^X\<close>, \<open>Y\<close> and
  \<open>([1-9]|1[0-9]|2[0-2])$\<close>; \<open>re.match\<close> tries them at the start of the string and only
  the third one looks at what follows.
\<close>

definition chromosome_re_match :: "string \<Rightarrow> bool" where
  "chromosome_re_match s =
     (prefix ''X'' s \<or> prefix ''Y'' s
      \<or> find (\<lambda>p. py_dollar (drop (length p) s)) (autosome_group s) \<noteq> None)"

text \<open>
  Line 98: \<open>re.match(r"^GRCh38:(?P<chromosome>X|Y|([1-9]|1[0-9]|2[0-2]))$", a)\<close>, with the
  value of the group \<open>chromosome\<close> when the alias matches. Here the alternatives are inside
  the named group and \<open>$\<close> follows all of them.
\<close>

definition chr_pattern_match :: "string \<Rightarrow> string option" where
  "chr_pattern_match a =
     (if prefix ''GRCh38:'' a
      then (let r = drop (length ''GRCh38:'') a
            in find (\<lambda>p. py_dollar (drop (length p) r))
                 ((if prefix ''X'' r then [''X''] else [])
                  @ (if prefix ''Y'' r then [''Y''] else [])
                  @ autosome_group r))
      else None)"

section \<open>Loading the annotation table\<close>

text \<open>
  The function applied to the column \<open>chromosome\<close> (line 64):
  \<open>chromosome.strip("chr").split("_")[0]\<close>.
\<close>

definition chromosome_lambda :: "string \<Rightarrow> py_exception + string" where
  "chromosome_lambda chrom = py_index0 (py_split (CHR ''_'') (py_strip ''chr'' chrom))"

text \<open>
  The functions applied to the column \<open>info\<close> (lines 55 and 59):
  \<open>re.findall("Name=([^;]+)", info)[0]\<close> and \<open>re.findall("gene=([^;]+)", info)[0]\<close>.
\<close>

definition info_name_lambda :: "string \<Rightarrow> py_exception + string" where
  "info_name_lambda info = py_index0 (re_findall_token ''Name='' info)"

definition gene_lambda :: "string \<Rightarrow> py_exception + string" where
  "gene_lambda info = py_index0 (re_findall_token ''gene='' info)"

text \<open>\<open>Series.apply\<close>: the function on every element in order; the first exception ends it.\<close>

fun series_apply :: "('a \<Rightarrow> py_exception + 'b) \<Rightarrow> 'a list \<Rightarrow> py_exception + 'b list" where
  "series_apply f [] = Inr []"
| "series_apply f (x # xs) =
     (case f x of
        Inl e \<Rightarrow> Inl e
      | Inr y \<Rightarrow> (case series_apply f xs of Inl e \<Rightarrow> Inl e | Inr ys \<Rightarrow> Inr (y # ys)))"

text \<open>The rows of the returned frame, from the retained lines and the three new columns.\<close>

fun build_rows :: "gff_row list \<Rightarrow> string list \<Rightarrow> string list \<Rightarrow> string list \<Rightarrow> cds_row list" where
  "build_rows (r # rs) (n # ns) (g # gs) (c # cs) =
     \<lparr>ftype = gff_type r, chromosome = c, cds_start = gff_cds_start r,
      cds_stop = gff_cds_stop r, info_name = n, gene = g\<rparr> # build_rows rs ns gs cs"
| "build_rows _ _ _ _ = []"

text \<open>
  \<open>_load_mane_refseq_gff_data\<close> (lines 34 to 77), on the lines that \<open>read_csv\<close> parsed: keep
  the lines of type \<open>CDS\<close>, compute \<open>info_name\<close>, then \<open>gene\<close>, then the chromosome.
\<close>

definition load_mane_refseq_gff_data :: "gff_row list \<Rightarrow> py_exception + cds_row list" where
  "load_mane_refseq_gff_data lines =
     (let df = filter (\<lambda>r. gff_type r = ''CDS'') lines
      in case series_apply info_name_lambda (map gff_info df) of
           Inl e \<Rightarrow> Inl e
         | Inr names \<Rightarrow>
             (case series_apply gene_lambda (map gff_info df) of
                Inl e \<Rightarrow> Inl e
              | Inr genes \<Rightarrow>
                  (case series_apply chromosome_lambda (map gff_chromosome df) of
                     Inl e \<Rightarrow> Inl e
                   | Inr chroms \<Rightarrow> Inr (build_rows df names genes chroms))))"

text \<open>
  What the documentation of the loader describes for the chromosome column: the string
  without a leading \<open>chr\<close>, cut at the first \<open>_\<close>.
\<close>

definition spec_chromosome_name :: "string \<Rightarrow> string" where
  "spec_chromosome_name chrom =
     takeWhile (\<lambda>c. c \<noteq> CHR ''_'')
       (if prefix ''chr'' chrom then drop (length ''chr'') chrom else chrom)"

section \<open>The overlap query\<close>

text \<open>
  \<open>SeqRepoAccess.translate_identifier(identifier, target_namespaces)\<close> is not part of the
  modelled file; it is a parameter, returning the pair \<open>(aliases, error_msg)\<close>.
\<close>

type_synonym translate_identifier_fn = "string \<Rightarrow> string \<Rightarrow> string list \<times> string option"

text \<open>
  The loop of lines 99 to 102: \<open>chr_match\<close> is the match of the first alias that matches,
  and \<open>None\<close> when the loop ends without one.
\<close>

fun first_chr_match :: "string list \<Rightarrow> string option" where
  "first_chr_match [] = None"
| "first_chr_match (a # as) =
     (case chr_pattern_match a of
        Some c \<Rightarrow> Some c
      | None \<Rightarrow> first_chr_match as)"

text \<open>\<open>_get_chr_from_alt_ac\<close> (lines 79 to 110).\<close>

definition get_chr_from_alt_ac :: "translate_identifier_fn \<Rightarrow> string \<Rightarrow> py_exception + string" where
  "get_chr_from_alt_ac translate_identifier identifier =
     (case translate_identifier identifier ''GRCh38'' of
        (aliases, error_msg) \<Rightarrow>
          (case py_truthy error_msg of
             Some msg \<Rightarrow> Inl (FeatureOverlapError msg)
           | None \<Rightarrow>
               if aliases = []
               then Inl (FeatureOverlapError (''Unable to find GRCh38 aliases for: '' @ identifier))
               else (case first_chr_match aliases of
                       None \<Rightarrow>
                         Inl (FeatureOverlapError
                               (''Unable to find GRCh38 chromosome for: '' @ identifier))
                     | Some c \<Rightarrow> Inr c)))"

text \<open>
  Lines 136 to 145 of \<open>get_grch38_cds_overlap\<close>: the chromosome the query is about, or the
  exception raised.
\<close>

definition resolve_chromosome ::
  "translate_identifier_fn \<Rightarrow> string option \<Rightarrow> string option \<Rightarrow> py_exception + string" where
  "resolve_chromosome translate_identifier chrom identifier =
     (case py_truthy chrom of
        Some c \<Rightarrow>
          if \<not> chromosome_re_match c
          then Inl (FeatureOverlapError ''`chromosome` must be 1, ..., 22, X, or Y'')
          else Inr c
      | None \<Rightarrow>
          (case py_truthy identifier of
             Some i \<Rightarrow> get_chr_from_alt_ac translate_identifier i
           | None \<Rightarrow> Inl (FeatureOverlapError ''Must provide either `chromosome` or `identifier`'')))"

text \<open>Lines 150 to 154: the interval in the convention of the table.\<close>

definition to_residue_interval :: "ResidueMode \<Rightarrow> int \<Rightarrow> int \<Rightarrow> int \<times> int" where
  "to_residue_interval residue_mode qstart qend =
     (if residue_mode = INTER_RESIDUE
      then (if qstart \<noteq> qend then (qstart + 1, qend) else (qstart, qend + 1))
      else (qstart, qend))"

text \<open>Lines 157 to 161: the rows of the table that the query selects.\<close>

definition feature_df :: "cds_row list \<Rightarrow> string \<Rightarrow> int \<Rightarrow> int \<Rightarrow> cds_row list" where
  "feature_df df chrom qstart qend =
     filter (\<lambda>r. chromosome r = chrom \<and> cds_start r \<le> qend \<and> cds_stop r \<ge> qstart) df"

text \<open>Lines 167 to 172: the two overlap columns of a selected row, and its record.\<close>

definition overlap_record :: "int \<Rightarrow> int \<Rightarrow> cds_row \<Rightarrow> cds_overlap" where
  "overlap_record qstart qend r =
     \<lparr>rec_cds_start = cds_start r, rec_cds_stop = cds_stop r,
      overlap_start = (let x = cds_start r in if qstart \<le> x then x else qstart),
      overlap_stop = (let x = cds_stop r in if qend \<le> x then qend else x)\<rparr>"

text \<open>
  Lines 174 to 180: \<open>groupby(["gene"])\<close>, one list of records for each gene that has a
  selected row, in the order of the table.
\<close>

definition group_by_gene :: "int \<Rightarrow> int \<Rightarrow> cds_row list \<Rightarrow> overlap_dict" where
  "group_by_gene qstart qend rows =
     (\<lambda>g. let rs = filter (\<lambda>r. gene r = g) rows
           in if rs = [] then None else Some (map (overlap_record qstart qend) rs))"

text \<open>
  \<open>get_grch38_cds_overlap\<close> (lines 112 to 180). \<open>Inl\<close> is a raised exception, \<open>Inr None\<close>
  the returned \<open>None\<close>, \<open>Inr (Some d)\<close> the returned dictionary.
\<close>

definition get_grch38_cds_overlap ::
  "translate_identifier_fn \<Rightarrow> cds_row list \<Rightarrow> int \<Rightarrow> int \<Rightarrow> string option \<Rightarrow> string option
     \<Rightarrow> ResidueMode \<Rightarrow> py_exception + overlap_dict option" where
  "get_grch38_cds_overlap translate_identifier df qstart qend chrom identifier residue_mode =
     (case resolve_chromosome translate_identifier chrom identifier of
        Inl e \<Rightarrow> Inl e
      | Inr c \<Rightarrow>
          (case to_residue_interval residue_mode qstart qend of
             (s, e) \<Rightarrow>
               (let fdf = feature_df df c s e
                in if fdf = [] then Inr None else Inr (Some (group_by_gene s e fdf)))))"

section \<open>Reference sequences\<close>

text \<open>
  \<open>str(i)\<close> of a Python integer, which is what an f-string inserts: the decimal digits,
  after a minus sign when the number is negative.
\<close>

definition digit_char :: "nat \<Rightarrow> char" where
  "digit_char d = ''0123456789'' ! d"

fun py_str_nat :: "nat \<Rightarrow> string" where
  "py_str_nat n = (if 10 \<le> n then py_str_nat (n div 10) else []) @ [digit_char (n mod 10)]"

declare py_str_nat.simps [simp del]

definition py_str_int :: "int \<Rightarrow> string" where
  "py_str_int i = (if 0 \<le> i then py_str_nat (nat i) else CHR ''-'' # py_str_nat (nat (- i)))"

text \<open>
  Modelled from the spec: \<open>SeqRepoAccess.get_reference_sequence\<close>, whose source file is not
  part of the material (only its test \<open>test_get_reference_sequence\<close> is). The repository is
  a map from accession to sequence. Following section 4.1 of the specification: an unknown
  identifier fails; an omitted start is the origin of the active mode and an omitted end is
  the end of the sequence; \<open>start \<le> end\<close> is validated; a \<open>RESIDUE\<close> start \<open>n\<close> becomes the
  inter-residue start \<open>n - 1\<close>; an end beyond the sequence fails; otherwise the result is
  the slice and no error.
\<close>

definition get_reference_sequence ::
  "(string \<Rightarrow> string option) \<Rightarrow> string \<Rightarrow> int option \<Rightarrow> int option \<Rightarrow> ResidueMode
     \<Rightarrow> string \<times> string option" where
  "get_reference_sequence seqrepo ac qstart qend residue_mode =
     (case seqrepo ac of
        None \<Rightarrow> ('''', Some (''Accession, '' @ ac @ '', not found in SeqRepo''))
      | Some sequence \<Rightarrow>
          (let s = (case qstart of
                      Some v \<Rightarrow> v
                    | None \<Rightarrow> if residue_mode = RESIDUE then 1 else 0);
               e = (case qend of Some v \<Rightarrow> v | None \<Rightarrow> int (length sequence))
           in if s > e
              then ('''', Some (''start ('' @ py_str_int s @ '') cannot be greater than end (''
                                 @ py_str_int e @ '')''))
              else (let s0 = (if residue_mode = RESIDUE then s - 1 else s)
                    in if e > int (length sequence)
                       then ('''', Some (''End inter-residue coordinate ('' @ py_str_int e
                                          @ '') is out of index on '' @ ac))
                       else (take (nat (e - s0)) (drop (nat s0) sequence), None))))"

section \<open>Example data\<close>

text \<open>
  A repository that knows two genomic accessions, answering as the tests of
  \<open>translate_identifier\<close> show: the aliases and no error, or no alias and a message.
\<close>

definition example_translate_identifier :: translate_identifier_fn where
  "example_translate_identifier identifier target_namespaces =
     (if identifier = ''NC_000007.14'' \<and> target_namespaces = ''GRCh38''
      then ([''GRCh38:7''], None)
      else if identifier = ''NC_000001.11'' \<and> target_namespaces = ''GRCh38''
      then ([''GRCh38:1''], None)
      else ([], Some (''SeqRepo unable to get translated identifiers for '' @ identifier)))"

text \<open>A table with three rows on chromosome 7 and one on chromosome 1.\<close>

definition example_df :: "cds_row list" where
  "example_df =
     [\<lparr>ftype = ''CDS'', chromosome = ''7'', cds_start = 100, cds_stop = 200,
       info_name = ''NP_004324.2'', gene = ''BRAF''\<rparr>,
      \<lparr>ftype = ''CDS'', chromosome = ''7'', cds_start = 1000, cds_stop = 1000,
       info_name = ''NP_004324.2'', gene = ''BRAF''\<rparr>,
      \<lparr>ftype = ''CDS'', chromosome = ''7'', cds_start = 120, cds_stop = 180,
       info_name = ''NP_000483.3'', gene = ''CFTR''\<rparr>,
      \<lparr>ftype = ''CDS'', chromosome = ''1'', cds_start = 100, cds_stop = 200,
       info_name = ''NP_002515.1'', gene = ''NRAS''\<rparr>]"

text \<open>
  A table with one row whose \<open>cds_start\<close> is greater than its \<open>cds_stop\<close>; the loader
  converts both columns to integers and does not compare them.
\<close>

definition example_reversed_df :: "cds_row list" where
  "example_reversed_df =
     [\<lparr>ftype = ''CDS'', chromosome = ''7'', cds_start = 200, cds_stop = 100,
       info_name = ''NP_004324.2'', gene = ''BRAF''\<rparr>]"

text \<open>A repository of sequences with one protein accession.\<close>

definition example_seqrepo :: "string \<Rightarrow> string option" where
  "example_seqrepo ac = (if ac = ''NP_001341538.1'' then Some ''MAALSGGGGG'' else None)"

section \<open>Auxiliary facts\<close>

lemma overlap_record_max_min:
  "overlap_record s e r =
     \<lparr>rec_cds_start = cds_start r, rec_cds_stop = cds_stop r,
      overlap_start = max (cds_start r) s, overlap_stop = min (cds_stop r) e\<rparr>"
  by (simp add: overlap_record_def Let_def max_def min_def)

lemma get_resolved:
  assumes "resolve_chromosome ti chrom ident = Inr c"
    and "to_residue_interval mode qs qe = (s, e)"
  shows "get_grch38_cds_overlap ti df qs qe chrom ident mode =
     (if feature_df df c s e = [] then Inr None
      else Inr (Some (group_by_gene s e (feature_df df c s e))))"
  using assms by (simp add: get_grch38_cds_overlap_def Let_def)

lemma get_raised:
  assumes "resolve_chromosome ti chrom ident = Inl err"
  shows "get_grch38_cds_overlap ti df qs qe chrom ident mode = Inl err"
  using assms by (simp add: get_grch38_cds_overlap_def)

lemma get_dict_cases:
  assumes "get_grch38_cds_overlap ti df qs qe chrom ident mode = Inr (Some d)"
  obtains c s e where "resolve_chromosome ti chrom ident = Inr c"
    and "to_residue_interval mode qs qe = (s, e)"
    and "feature_df df c s e \<noteq> []"
    and "d = group_by_gene s e (feature_df df c s e)"
proof (cases "resolve_chromosome ti chrom ident")
  case (Inl err)
  with assms show ?thesis by (simp add: get_raised)
next
  case (Inr c)
  obtain s e where se: "to_residue_interval mode qs qe = (s, e)"
    by (cases "to_residue_interval mode qs qe")
  from assms get_resolved [OF Inr se, of df]
  have "feature_df df c s e \<noteq> [] \<and> d = group_by_gene s e (feature_df df c s e)"
    by (auto split: if_splits)
  with Inr se that show ?thesis by blast
qed

lemma chromosome_7_accepted: "chromosome_re_match ''7''"
  by (simp add: chromosome_re_match_def autosome_group_def in_class_def py_dollar_def)

lemma resolve_chromosome_7: "resolve_chromosome ti (Some ''7'') ident = Inr ''7''"
  by (simp add: resolve_chromosome_def chromosome_7_accepted)

lemma example_query_50_150:
  "get_grch38_cds_overlap ti example_df 50 150 (Some ''7'') ident RESIDUE =
     Inr (Some (group_by_gene 50 150 (feature_df example_df ''7'' 50 150)))"
  by (simp add: get_resolved [OF resolve_chromosome_7, of RESIDUE 50 150 50 150]
      to_residue_interval_def feature_df_def example_df_def)

lemma chromosome_Xq28_accepted: "chromosome_re_match ''Xq28''"
  by (simp add: chromosome_re_match_def)

lemma chromosome_chr7_rejected: "\<not> chromosome_re_match ''chr7''"
  by (simp add: chromosome_re_match_def autosome_group_def in_class_def)

lemma example_unknown_identifier:
  "get_chr_from_alt_ac example_translate_identifier ''refseq_152263.3'' =
     Inl (FeatureOverlapError ''SeqRepo unable to get translated identifiers for refseq_152263.3'')"
  by (simp add: get_chr_from_alt_ac_def example_translate_identifier_def)

lemma example_chromosome_of_NC_000007:
  "get_chr_from_alt_ac example_translate_identifier ''NC_000007.14'' = Inr ''7''"
  by (simp add: get_chr_from_alt_ac_def example_translate_identifier_def chr_pattern_match_def
      autosome_group_def in_class_def py_dollar_def)

lemma example_chromosome_of_NC_000001:
  "get_chr_from_alt_ac example_translate_identifier ''NC_000001.11'' = Inr ''1''"
  by (simp add: get_chr_from_alt_ac_def example_translate_identifier_def chr_pattern_match_def
      autosome_group_def in_class_def py_dollar_def)

lemma closed_set_accepted:
  "list_all chromosome_re_match
     ([''X'', ''Y''] @ map (\<lambda>d. [d]) ''123456789''
      @ map (\<lambda>d. [CHR ''1'', d]) ''0123456789'' @ map (\<lambda>d. [CHR ''2'', d]) ''012'')"
  by (simp add: chromosome_re_match_def autosome_group_def in_class_def py_dollar_def)

lemma outside_closed_set_rejected:
  "\<not> chromosome_re_match ''0'' \<and> \<not> chromosome_re_match ''23'' \<and> \<not> chromosome_re_match ''117''
   \<and> \<not> chromosome_re_match ''chrX'' \<and> \<not> chromosome_re_match ''x''"
  by (simp add: chromosome_re_match_def autosome_group_def in_class_def py_dollar_def)

lemma py_split_first: "py_index0 (py_split sep s) = Inr (takeWhile (\<lambda>c. c \<noteq> sep) s)"
  by (induction s) (auto simp add: py_index0_def split: list.splits)

lemma py_strip_clean:
  assumes "t \<noteq> []" and "hd t \<notin> set chars" and "last t \<notin> set chars"
    and that: "set p \<subseteq> set chars"
  shows "py_strip chars (p @ t) = t"
proof -
  from assms obtain x xs where t: "t = x # xs" and x: "x \<notin> set chars"
    by (cases t) auto
  from that have "dropWhile (\<lambda>c. c \<in> set chars) (p @ t) = t"
    by (simp add: dropWhile_append t x subset_iff)
  moreover from assms have "dropWhile (\<lambda>c. c \<in> set chars) (rev t) = rev t"
    by (cases t rule: rev_cases) auto
  ultimately show ?thesis
    by (simp add: py_strip_def)
qed

lemma chromosome_lambda_agrees:
  assumes "t \<noteq> []" and "hd t \<notin> set ''chr''" and "last t \<notin> set ''chr''"
  shows "chromosome_lambda (''chr'' @ t) = Inr (spec_chromosome_name (''chr'' @ t))"
proof -
  have "py_strip ''chr'' (''chr'' @ t) = t"
    using py_strip_clean [OF assms, of "''chr''"] by simp
  then show ?thesis
    by (simp add: chromosome_lambda_def py_split_first spec_chromosome_name_def)
qed

text \<open>
  The model of \<open>get_reference_sequence\<close> on the kinds of call that
  \<open>test_get_reference_sequence\<close> makes, with the example repository: positions in both
  conventions, omitted positions, a start beyond the end, an end beyond the sequence and
  an unknown accession.
\<close>

lemma reference_sequence_examples:
  "get_reference_sequence example_seqrepo ''NP_001341538.1'' (Some 3) (Some 3) RESIDUE
     = (''A'', None)"
  "get_reference_sequence example_seqrepo ''NP_001341538.1'' (Some 3) (Some 4) RESIDUE
     = (''AL'', None)"
  "get_reference_sequence example_seqrepo ''NP_001341538.1'' (Some 2) (Some 3) INTER_RESIDUE
     = (''A'', None)"
  "get_reference_sequence example_seqrepo ''NP_001341538.1'' None (Some 10) RESIDUE
     = (''MAALSGGGGG'', None)"
  "get_reference_sequence example_seqrepo ''NP_001341538.1'' (Some 8) None RESIDUE
     = (''GGG'', None)"
  "get_reference_sequence example_seqrepo ''NP_001341538.1'' None None RESIDUE
     = (''MAALSGGGGG'', None)"
  "get_reference_sequence example_seqrepo ''NP_001341538.1'' (Some 601) (Some 600) RESIDUE
     = ([], Some ''start (601) cannot be greater than end (600)'')"
  "get_reference_sequence example_seqrepo ''NP_001341538.1'' (Some 6) (Some 800) RESIDUE
     = ([], Some ''End inter-residue coordinate (800) is out of index on NP_001341538.1'')"
  "get_reference_sequence example_seqrepo ''NP_0043241311412'' (Some 600) None RESIDUE
     = ([], Some ''Accession, NP_0043241311412, not found in SeqRepo'')"
  by (simp_all add: get_reference_sequence_def example_seqrepo_def py_str_int_def
      py_str_nat.simps [of 601] py_str_nat.simps [of 600] py_str_nat.simps [of 800]
      py_str_nat.simps [of 60] py_str_nat.simps [of 80] py_str_nat.simps [of 6]
      py_str_nat.simps [of 8] digit_char_def)

section \<open>Coordinate normalisation\<close>

text \<open>
  C1, as the code has it. An \<open>INTER_RESIDUE\<close> query is answered as the \<open>RESIDUE\<close> query
  on the converted interval: when \<open>start \<noteq> end\<close> the start is incremented by one, and when
  \<open>start = end\<close> the end is incremented by one instead, which gives the inclusive interval
  \<open>[start, start + 1]\<close>. The zero-width input \<open>[1000, 1000]\<close> becomes \<open>[1000, 1001]\<close> and the
  input \<open>[1000, 1001]\<close> becomes \<open>[1001, 1001]\<close>, two different intervals.
\<close>

theorem inter_residue_normalization:
  "get_grch38_cds_overlap ti df qs qe chrom ident INTER_RESIDUE =
     get_grch38_cds_overlap ti df (if qs \<noteq> qe then qs + 1 else qs) (if qs \<noteq> qe then qe else qe + 1)
       chrom ident RESIDUE
   \<and> to_residue_interval INTER_RESIDUE qs qe = (if qs \<noteq> qe then (qs + 1, qe) else (qs, qe + 1))
   \<and> to_residue_interval INTER_RESIDUE 1000 1000 = (1000, 1001)
   \<and> to_residue_interval INTER_RESIDUE 1000 1001 = (1001, 1001)"
proof -
  have "get_grch38_cds_overlap ti df qs qe chrom ident INTER_RESIDUE =
     get_grch38_cds_overlap ti df (if qs \<noteq> qe then qs + 1 else qs) (if qs \<noteq> qe then qe else qe + 1)
       chrom ident RESIDUE"
    by (cases "resolve_chromosome ti chrom ident"; cases "qs = qe")
       (simp_all add: get_grch38_cds_overlap_def to_residue_interval_def)
  then show ?thesis
    by (simp add: to_residue_interval_def)
qed

text \<open>
  C1, as the claim states it, fails: the zero-width inter-residue interval \<open>[1000, 1000]\<close>
  is not converted to \<open>[1001, 1001]\<close>. On the example table the row with
  \<open>cds_start = cds_stop = 1000\<close> is returned for the inter-residue query \<open>[1000, 1000]\<close>,
  and it is not returned for the residue query \<open>[1001, 1001]\<close>.
\<close>

theorem zero_width_counterexample:
  "to_residue_interval INTER_RESIDUE 1000 1000 \<noteq> (1001, 1001)
   \<and> get_grch38_cds_overlap example_translate_identifier example_df 1000 1000 (Some ''7'') None
        INTER_RESIDUE
      \<noteq> get_grch38_cds_overlap example_translate_identifier example_df 1001 1001 (Some ''7'') None
           RESIDUE"
  by (simp add: get_grch38_cds_overlap_def to_residue_interval_def resolve_chromosome_7
      feature_df_def example_df_def)

section \<open>Row selection and clipping\<close>

text \<open>
  C2. When the query returns a dictionary, with resolved chromosome \<open>c\<close> and normalised
  interval \<open>[s, e]\<close>, the records under a gene are, in the order of the table, those of the
  rows of that gene with \<open>chromosome = c\<close>, \<open>cds_start \<le> e\<close> and \<open>cds_stop \<ge> s\<close>, and
  no others; each record carries \<open>overlap_start = max cds_start s\<close> and
  \<open>overlap_stop = min cds_stop e\<close>. A gene without such a row is not a key.
\<close>

theorem cds_overlap_selection_and_clipping:
  assumes "get_grch38_cds_overlap ti df qs qe chrom ident mode = Inr (Some d)"
  shows "\<exists>c s e. resolve_chromosome ti chrom ident = Inr c
           \<and> to_residue_interval mode qs qe = (s, e)
           \<and> (\<forall>g. d g =
                (let rs = filter (\<lambda>r. gene r = g \<and> chromosome r = c
                                       \<and> cds_start r \<le> e \<and> cds_stop r \<ge> s) df
                 in if rs = [] then None
                    else Some (map (\<lambda>r. \<lparr>rec_cds_start = cds_start r, rec_cds_stop = cds_stop r,
                                          overlap_start = max (cds_start r) s,
                                          overlap_stop = min (cds_stop r) e\<rparr>) rs)))"
proof -
  from assms obtain c s e where c: "resolve_chromosome ti chrom ident = Inr c"
    and se: "to_residue_interval mode qs qe = (s, e)"
    and d: "d = group_by_gene s e (feature_df df c s e)"
    by (rule get_dict_cases)
  have "d g =
      (let rs = filter (\<lambda>r. gene r = g \<and> chromosome r = c \<and> cds_start r \<le> e \<and> cds_stop r \<ge> s) df
       in if rs = [] then None
          else Some (map (\<lambda>r. \<lparr>rec_cds_start = cds_start r, rec_cds_stop = cds_stop r,
                                overlap_start = max (cds_start r) s,
                                overlap_stop = min (cds_stop r) e\<rparr>) rs))" for g
    unfolding d group_by_gene_def feature_df_def Let_def filter_filter
    by (simp add: overlap_record_max_min conj_comms cong: conj_cong)
  with c se show ?thesis by blast
qed

theorem cds_overlap_selection_and_clipping_witness:
  "\<exists>d. get_grch38_cds_overlap example_translate_identifier example_df 50 150 (Some ''7'') None RESIDUE
          = Inr (Some d)
       \<and> d ''BRAF'' = Some [\<lparr>rec_cds_start = 100, rec_cds_stop = 200,
                              overlap_start = 100, overlap_stop = 150\<rparr>]
       \<and> d ''CFTR'' = Some [\<lparr>rec_cds_start = 120, rec_cds_stop = 180,
                              overlap_start = 120, overlap_stop = 150\<rparr>]
       \<and> d ''NRAS'' = None"
proof -
  let ?d = "group_by_gene 50 150 (feature_df example_df ''7'' 50 150)"
  have g: "get_grch38_cds_overlap example_translate_identifier example_df 50 150 (Some ''7'') None
             RESIDUE = Inr (Some ?d)"
    by (rule example_query_50_150)
  from cds_overlap_selection_and_clipping [OF g]
  have "?d ''BRAF'' = Some [\<lparr>rec_cds_start = 100, rec_cds_stop = 200,
                              overlap_start = 100, overlap_stop = 150\<rparr>]
      \<and> ?d ''CFTR'' = Some [\<lparr>rec_cds_start = 120, rec_cds_stop = 180,
                              overlap_start = 120, overlap_stop = 150\<rparr>]
      \<and> ?d ''NRAS'' = None"
    by (auto simp add: resolve_chromosome_7 to_residue_interval_def example_df_def)
  with g show ?thesis by blast
qed

section \<open>Failure reporting\<close>

text \<open>
  C3, as the claim states it, fails: the expected failures are raised, not returned. A
  chromosome with a \<open>chr\<close> prefix, a call with neither chromosome nor identifier, and an
  identifier the repository does not know each end in a raised \<open>FeatureOverlapError\<close>.
\<close>

theorem expected_failures_raise_counterexample:
  "get_grch38_cds_overlap example_translate_identifier example_df 50 150 (Some ''chr7'') None RESIDUE
     = Inl (FeatureOverlapError ''`chromosome` must be 1, ..., 22, X, or Y'')
   \<and> get_grch38_cds_overlap example_translate_identifier example_df 50 150 None None RESIDUE
     = Inl (FeatureOverlapError ''Must provide either `chromosome` or `identifier`'')
   \<and> get_grch38_cds_overlap example_translate_identifier example_df 50 150 None
        (Some ''refseq_152263.3'') RESIDUE
     = Inl (FeatureOverlapError ''SeqRepo unable to get translated identifiers for refseq_152263.3'')"
  by (simp add: get_grch38_cds_overlap_def resolve_chromosome_def chromosome_chr7_rejected
      example_unknown_identifier)

text \<open>
  C3, as the code has it. \<open>get_grch38_cds_overlap\<close> raises \<open>FeatureOverlapError\<close> for a
  chromosome that the pattern of line 137 does not match, for a call in which neither the
  chromosome nor the identifier is given, and for an identifier whose lookup fails (an error
  message from \<open>translate_identifier\<close>, no alias, or no alias of the form
  \<open>GRCh38:<chromosome>\<close>). It returns a value exactly when the chromosome is resolved.
\<close>

theorem expected_failures_raise:
  "(py_truthy chrom = Some c \<and> \<not> chromosome_re_match c \<longrightarrow>
      get_grch38_cds_overlap ti df qs qe chrom ident mode
        = Inl (FeatureOverlapError ''`chromosome` must be 1, ..., 22, X, or Y''))
   \<and> (py_truthy chrom = None \<and> py_truthy ident = None \<longrightarrow>
      get_grch38_cds_overlap ti df qs qe chrom ident mode
        = Inl (FeatureOverlapError ''Must provide either `chromosome` or `identifier`''))
   \<and> (py_truthy chrom = None \<and> py_truthy ident = Some i
        \<and> ti i ''GRCh38'' = (aliases, error_msg) \<longrightarrow>
        (py_truthy error_msg = Some msg \<longrightarrow>
           get_grch38_cds_overlap ti df qs qe chrom ident mode = Inl (FeatureOverlapError msg))
      \<and> (py_truthy error_msg = None \<and> aliases = [] \<longrightarrow>
           get_grch38_cds_overlap ti df qs qe chrom ident mode
             = Inl (FeatureOverlapError (''Unable to find GRCh38 aliases for: '' @ i)))
      \<and> (py_truthy error_msg = None \<and> aliases \<noteq> [] \<and> first_chr_match aliases = None \<longrightarrow>
           get_grch38_cds_overlap ti df qs qe chrom ident mode
             = Inl (FeatureOverlapError (''Unable to find GRCh38 chromosome for: '' @ i))))
   \<and> ((\<exists>v. get_grch38_cds_overlap ti df qs qe chrom ident mode = Inr v)
        = (\<exists>c'. resolve_chromosome ti chrom ident = Inr c'))"
proof -
  have ret: "(\<exists>v. get_grch38_cds_overlap ti df qs qe chrom ident mode = Inr v)
        = (\<exists>c'. resolve_chromosome ti chrom ident = Inr c')"
  proof (cases "resolve_chromosome ti chrom ident")
    case (Inl err)
    then show ?thesis by (simp add: get_raised)
  next
    case (Inr c')
    obtain s e where "to_residue_interval mode qs qe = (s, e)"
      by (cases "to_residue_interval mode qs qe")
    with Inr show ?thesis by (simp add: get_resolved)
  qed
  show ?thesis
    by (intro conjI impI get_raised ret)
       (simp_all add: resolve_chromosome_def get_chr_from_alt_ac_def)
qed

theorem expected_failures_raise_witness:
  "py_truthy (Some ''chr7'') = Some ''chr7'' \<and> \<not> chromosome_re_match ''chr7''
   \<and> get_grch38_cds_overlap example_translate_identifier example_df 50 150 (Some ''chr7'') None RESIDUE
       = Inl (FeatureOverlapError ''`chromosome` must be 1, ..., 22, X, or Y'')
   \<and> py_truthy (Some '''') = None \<and> py_truthy None = None
   \<and> get_grch38_cds_overlap example_translate_identifier example_df 50 150 (Some '''') None RESIDUE
       = Inl (FeatureOverlapError ''Must provide either `chromosome` or `identifier`'')
   \<and> py_truthy (Some ''NC_000023.11'') = Some ''NC_000023.11''
   \<and> example_translate_identifier ''NC_000023.11'' ''GRCh38''
       = ([], Some ''SeqRepo unable to get translated identifiers for NC_000023.11'')
   \<and> get_grch38_cds_overlap example_translate_identifier example_df 50 150 None
        (Some ''NC_000023.11'') RESIDUE
       = Inl (FeatureOverlapError ''SeqRepo unable to get translated identifiers for NC_000023.11'')"
proof -
  have a: "py_truthy (Some ''chr7'') = Some ''chr7'' \<and> \<not> chromosome_re_match ''chr7''"
    by (simp add: chromosome_chr7_rejected)
  have b: "py_truthy (Some '''') = None \<and> py_truthy None = None"
    by simp
  have c: "py_truthy None = None \<and> py_truthy (Some ''NC_000023.11'') = Some ''NC_000023.11''
      \<and> example_translate_identifier ''NC_000023.11'' ''GRCh38''
          = ([], Some ''SeqRepo unable to get translated identifiers for NC_000023.11'')"
    by (simp add: example_translate_identifier_def)
  have d: "py_truthy (Some ''SeqRepo unable to get translated identifiers for NC_000023.11'')
      = Some ''SeqRepo unable to get translated identifiers for NC_000023.11''"
    by simp
  note t = expected_failures_raise [where ti = example_translate_identifier and df = example_df
      and qs = 50 and qe = 150 and mode = RESIDUE]
  from a t [where chrom = "Some ''chr7''" and c = "''chr7''" and ident = None]
  have 1: "get_grch38_cds_overlap example_translate_identifier example_df 50 150 (Some ''chr7'') None
      RESIDUE = Inl (FeatureOverlapError ''`chromosome` must be 1, ..., 22, X, or Y'')"
    by blast
  from b t [where chrom = "Some ''''" and ident = None]
  have 2: "get_grch38_cds_overlap example_translate_identifier example_df 50 150 (Some '''') None
      RESIDUE = Inl (FeatureOverlapError ''Must provide either `chromosome` or `identifier`'')"
    by blast
  from c d t [where chrom = None and ident = "Some ''NC_000023.11''" and i = "''NC_000023.11''"
      and aliases = "[]"
      and error_msg = "Some ''SeqRepo unable to get translated identifiers for NC_000023.11''"
      and msg = "''SeqRepo unable to get translated identifiers for NC_000023.11''"]
  have 3: "get_grch38_cds_overlap example_translate_identifier example_df 50 150 None
        (Some ''NC_000023.11'') RESIDUE
       = Inl (FeatureOverlapError ''SeqRepo unable to get translated identifiers for NC_000023.11'')"
    by blast
  from a b c 1 2 3 show ?thesis by blast
qed

section \<open>Chromosome validation\<close>

text \<open>
  C4, the code at the input \<open>chromosome = "Xq28"\<close>: the string is outside the set
  \<open>1, ..., 22, X, Y\<close>, and the check of line 137 accepts it, because the pattern
  \<open>^X|Y|([1-9]|1[0-9]|2[0-2])$\<close> only asks for a string that begins with \<open>X\<close>. No
  exception is raised; the table is scanned for the chromosome \<open>Xq28\<close> and the example
  table yields \<open>None\<close>.
\<close>

theorem chromosome_prefix_X_accepted:
  "resolve_chromosome ti (Some ''Xq28'') ident = Inr ''Xq28''
   \<and> get_grch38_cds_overlap ti example_df qs qe (Some ''Xq28'') ident mode = Inr None"
proof -
  have r: "resolve_chromosome ti (Some ''Xq28'') ident = Inr ''Xq28''"
    by (simp add: resolve_chromosome_def chromosome_Xq28_accepted)
  obtain s e where se: "to_residue_interval mode qs qe = (s, e)"
    by (cases "to_residue_interval mode qs qe")
  have "feature_df example_df ''Xq28'' s e = []"
    by (simp add: feature_df_def example_df_def)
  with r se show ?thesis by (simp add: get_resolved)
qed

section \<open>No overlap\<close>

text \<open>
  C5. When the chromosome is resolved and no row of the table passes the chromosome and
  interval test for the normalised interval, the result is \<open>None\<close>; and the operation
  never returns an empty dictionary.
\<close>

theorem no_overlap_returns_None:
  "(resolve_chromosome ti chrom ident = Inr c \<and> to_residue_interval mode qs qe = (s, e)
      \<and> filter (\<lambda>r. chromosome r = c \<and> cds_start r \<le> e \<and> cds_stop r \<ge> s) df = [] \<longrightarrow>
      get_grch38_cds_overlap ti df qs qe chrom ident mode = Inr None)
   \<and> get_grch38_cds_overlap ti df qs qe chrom ident mode \<noteq> Inr (Some Map.empty)"
proof -
  have "get_grch38_cds_overlap ti df qs qe chrom ident mode \<noteq> Inr (Some Map.empty)"
  proof
    assume "get_grch38_cds_overlap ti df qs qe chrom ident mode = Inr (Some Map.empty)"
    then obtain c' s' e' where ne: "feature_df df c' s' e' \<noteq> []"
      and d: "Map.empty = group_by_gene s' e' (feature_df df c' s' e')"
      by (rule get_dict_cases)
    from ne obtain r rs where rs: "feature_df df c' s' e' = r # rs"
      by (cases "feature_df df c' s' e'") auto
    have "group_by_gene s' e' (feature_df df c' s' e') (gene r) \<noteq> None"
      by (simp add: group_by_gene_def rs)
    with d show False by (metis)
  qed
  then show ?thesis
    by (auto simp add: get_resolved feature_df_def)
qed

theorem no_overlap_returns_None_witness:
  "resolve_chromosome example_translate_identifier (Some ''7'') None = Inr ''7''
   \<and> to_residue_interval RESIDUE 300 400 = (300, 400)
   \<and> filter (\<lambda>r. chromosome r = ''7'' \<and> cds_start r \<le> 400 \<and> cds_stop r \<ge> 300) example_df = []
   \<and> get_grch38_cds_overlap example_translate_identifier example_df 300 400 (Some ''7'') None RESIDUE
       = Inr None"
proof -
  have h: "resolve_chromosome example_translate_identifier (Some ''7'') None = Inr ''7''
      \<and> to_residue_interval RESIDUE 300 400 = (300, 400)
      \<and> filter (\<lambda>r. chromosome r = ''7'' \<and> cds_start r \<le> 400 \<and> cds_stop r \<ge> 300) example_df = []"
    by (simp add: resolve_chromosome_7 to_residue_interval_def example_df_def)
  with no_overlap_returns_None [of example_translate_identifier "Some ''7''" None "''7''"
      RESIDUE 300 400 300 400 example_df]
  show ?thesis by blast
qed

section \<open>Precedence of the chromosome argument\<close>

text \<open>
  C6, as the claim states it, fails when the chromosome supplied is the empty string: the
  identifier is then consulted. With \<open>chromosome = ""\<close> the identifier \<open>NC_000007.14\<close>
  selects chromosome 7 and \<open>NC_000001.11\<close> selects chromosome 1, and the result of the
  query changes with the identifier.
\<close>

theorem empty_chromosome_uses_identifier_counterexample:
  "resolve_chromosome example_translate_identifier (Some '''') (Some ''NC_000007.14'') = Inr ''7''
   \<and> resolve_chromosome example_translate_identifier (Some '''') (Some ''NC_000001.11'') = Inr ''1''
   \<and> get_grch38_cds_overlap example_translate_identifier example_df 110 130 (Some '''')
        (Some ''NC_000007.14'') RESIDUE
      \<noteq> get_grch38_cds_overlap example_translate_identifier example_df 110 130 (Some '''')
           (Some ''NC_000001.11'') RESIDUE"
proof -
  have 7: "resolve_chromosome example_translate_identifier (Some '''') (Some ''NC_000007.14'') = Inr ''7''"
    by (simp add: resolve_chromosome_def example_chromosome_of_NC_000007)
  have 1: "resolve_chromosome example_translate_identifier (Some '''') (Some ''NC_000001.11'') = Inr ''1''"
    by (simp add: resolve_chromosome_def example_chromosome_of_NC_000001)
  have se: "to_residue_interval RESIDUE 110 130 = (110, 130)"
    by (simp add: to_residue_interval_def)
  have "group_by_gene 110 130 (feature_df example_df ''7'' 110 130) ''NRAS''
      \<noteq> group_by_gene 110 130 (feature_df example_df ''1'' 110 130) ''NRAS''"
    by (simp add: group_by_gene_def feature_df_def example_df_def)
  then have "group_by_gene 110 130 (feature_df example_df ''7'' 110 130)
      \<noteq> group_by_gene 110 130 (feature_df example_df ''1'' 110 130)"
    by metis
  then have "get_grch38_cds_overlap example_translate_identifier example_df 110 130 (Some '''')
        (Some ''NC_000007.14'') RESIDUE
      \<noteq> get_grch38_cds_overlap example_translate_identifier example_df 110 130 (Some '''')
           (Some ''NC_000001.11'') RESIDUE"
    by (simp add: get_resolved [OF 7 se] get_resolved [OF 1 se] feature_df_def example_df_def)
  with 7 1 show ?thesis by blast
qed

text \<open>
  C6, as the code has it. When a non-empty chromosome and an identifier are both supplied,
  the result does not depend on the identifier or on the repository: the chromosome
  argument alone decides, as the target chromosome when the pattern of line 137 matches
  it and as the raised error otherwise.
\<close>

theorem chromosome_takes_precedence:
  "c \<noteq> [] \<Longrightarrow>
   get_grch38_cds_overlap ti df qs qe (Some c) ident mode
     = get_grch38_cds_overlap ti' df qs qe (Some c) ident' mode
   \<and> resolve_chromosome ti (Some c) ident =
       (if chromosome_re_match c then Inr c
        else Inl (FeatureOverlapError ''`chromosome` must be 1, ..., 22, X, or Y''))"
  by (simp add: get_grch38_cds_overlap_def resolve_chromosome_def)

theorem chromosome_takes_precedence_witness:
  "''7'' \<noteq> []
   \<and> get_grch38_cds_overlap example_translate_identifier example_df 50 150 (Some ''7'')
        (Some ''NC_000001.11'') RESIDUE
     = get_grch38_cds_overlap (\<lambda>i n. ([], None)) example_df 50 150 (Some ''7'') None RESIDUE
   \<and> resolve_chromosome example_translate_identifier (Some ''7'') (Some ''NC_000001.11'') = Inr ''7''"
  using chromosome_takes_precedence [of "''7''" example_translate_identifier example_df 50 150
      "Some ''NC_000001.11''" RESIDUE "\<lambda>i n. ([], None)" None]
  by (simp add: chromosome_7_accepted)

section \<open>Bounds of the overlap\<close>

text \<open>
  C9, as the claim states it, fails on a table with a row whose \<open>cds_start\<close> is greater
  than its \<open>cds_stop\<close>. The loader keeps the line with start 200 and stop 100, and the
  residue query \<open>[50, 250]\<close>, whose interval satisfies \<open>start \<le> end\<close>, returns for it the
  record with \<open>overlap_start = 200\<close> and \<open>overlap_stop = 100\<close>.
\<close>

theorem reversed_row_counterexample:
  "load_mane_refseq_gff_data
     [\<lparr>gff_chromosome = ''chr7'', gff_type = ''CDS'', gff_cds_start = 200, gff_cds_stop = 100,
       gff_info = ''ID=cds-NP_004324.2;Name=NP_004324.2;gene=BRAF''\<rparr>]
     = Inr example_reversed_df
   \<and> to_residue_interval RESIDUE 50 250 = (50, 250) \<and> (50::int) \<le> 250
   \<and> get_grch38_cds_overlap example_translate_identifier example_reversed_df 50 250 (Some ''7'')
        None RESIDUE
      = Inr (Some (group_by_gene 50 250 (feature_df example_reversed_df ''7'' 50 250)))
   \<and> group_by_gene 50 250 (feature_df example_reversed_df ''7'' 50 250) ''BRAF''
      = Some [\<lparr>rec_cds_start = 200, rec_cds_stop = 100, overlap_start = 200, overlap_stop = 100\<rparr>]
   \<and> (200::int) > 100"
proof -
  have l: "load_mane_refseq_gff_data
     [\<lparr>gff_chromosome = ''chr7'', gff_type = ''CDS'', gff_cds_start = 200, gff_cds_stop = 100,
       gff_info = ''ID=cds-NP_004324.2;Name=NP_004324.2;gene=BRAF''\<rparr>]
     = Inr example_reversed_df"
    by (simp add: chromosome_lambda_def py_strip_def py_index0_def load_mane_refseq_gff_data_def
        info_name_lambda_def gene_lambda_def example_reversed_df_def)
  have se: "to_residue_interval RESIDUE 50 250 = (50, 250)"
    by (simp add: to_residue_interval_def)
  have g: "get_grch38_cds_overlap example_translate_identifier example_reversed_df 50 250 (Some ''7'')
        None RESIDUE
      = Inr (Some (group_by_gene 50 250 (feature_df example_reversed_df ''7'' 50 250)))"
    by (simp add: get_resolved [OF resolve_chromosome_7 se] feature_df_def example_reversed_df_def)
  have r: "group_by_gene 50 250 (feature_df example_reversed_df ''7'' 50 250) ''BRAF''
      = Some [\<lparr>rec_cds_start = 200, rec_cds_stop = 100, overlap_start = 200, overlap_stop = 100\<rparr>]"
    by (simp add: group_by_gene_def feature_df_def example_reversed_df_def overlap_record_def)
  from l se g r show ?thesis by simp
qed

text \<open>
  C9, as the code has it. Neither the interval of the query nor the rows of the table are
  validated. For a query whose normalised interval satisfies \<open>start \<le> end\<close>, every
  returned record has \<open>cds_start \<le> overlap_start\<close> and \<open>overlap_stop \<le> cds_stop\<close>, and
  \<open>overlap_start \<le> overlap_stop\<close> holds exactly when the row has
  \<open>cds_start \<le> cds_stop\<close>. The residue query \<open>[150, 120]\<close> on chromosome 7 of the example
  table is not rejected: it returns a dictionary with a record whose \<open>overlap_start\<close> is
  150 and whose \<open>overlap_stop\<close> is 120.
\<close>

theorem overlap_bounds_without_interval_validation:
  "(get_grch38_cds_overlap ti df qs qe chrom ident mode = Inr (Some d)
      \<and> to_residue_interval mode qs qe = (s, e) \<and> s \<le> e
      \<and> d g = Some recs \<and> rec \<in> set recs \<longrightarrow>
      rec_cds_start rec \<le> overlap_start rec \<and> overlap_stop rec \<le> rec_cds_stop rec
      \<and> (overlap_start rec \<le> overlap_stop rec) = (rec_cds_start rec \<le> rec_cds_stop rec))
   \<and> (\<exists>d'. to_residue_interval RESIDUE 150 120 = (150, 120) \<and> (150::int) > 120
        \<and> get_grch38_cds_overlap ti example_df 150 120 (Some ''7'') ident RESIDUE = Inr (Some d')
        \<and> d' ''CFTR'' = Some [\<lparr>rec_cds_start = 120, rec_cds_stop = 180,
                                 overlap_start = 150, overlap_stop = 120\<rparr>])"
proof -
  have bounds: "rec_cds_start rec \<le> overlap_start rec \<and> overlap_stop rec \<le> rec_cds_stop rec
      \<and> (overlap_start rec \<le> overlap_stop rec) = (rec_cds_start rec \<le> rec_cds_stop rec)"
    if a: "get_grch38_cds_overlap ti df qs qe chrom ident mode = Inr (Some d)
      \<and> to_residue_interval mode qs qe = (s, e) \<and> s \<le> e
      \<and> d g = Some recs \<and> rec \<in> set recs"
  proof -
    from a have "get_grch38_cds_overlap ti df qs qe chrom ident mode = Inr (Some d)"
      by simp
    then obtain c s' e' where se': "to_residue_interval mode qs qe = (s', e')"
      and d: "d = group_by_gene s' e' (feature_df df c s' e')"
      by (rule get_dict_cases)
    from a se' have [simp]: "s' = s" "e' = e" by simp_all
    from a d have "rec \<in> overlap_record s e ` set (feature_df df c s e)"
      by (auto simp add: group_by_gene_def Let_def split: if_splits)
    then obtain r where r: "cds_start r \<le> e" "s \<le> cds_stop r"
      and rec: "rec = overlap_record s e r"
      by (auto simp add: feature_df_def)
    from a have "s \<le> e" by simp
    with r show ?thesis
      by (auto simp add: rec overlap_record_max_min)
  qed
  let ?d = "group_by_gene 150 120 (feature_df example_df ''7'' 150 120)"
  have se: "to_residue_interval RESIDUE 150 120 = (150, 120)"
    by (simp add: to_residue_interval_def)
  have "get_grch38_cds_overlap ti example_df 150 120 (Some ''7'') ident RESIDUE = Inr (Some ?d)"
    by (simp add: get_resolved [OF resolve_chromosome_7 se] feature_df_def example_df_def)
  moreover have "?d ''CFTR'' = Some [\<lparr>rec_cds_start = 120, rec_cds_stop = 180,
                                 overlap_start = 150, overlap_stop = 120\<rparr>]"
    by (simp add: group_by_gene_def feature_df_def example_df_def overlap_record_def)
  ultimately have reversed:
    "\<exists>d'. to_residue_interval RESIDUE 150 120 = (150, 120) \<and> (150::int) > 120
        \<and> get_grch38_cds_overlap ti example_df 150 120 (Some ''7'') ident RESIDUE = Inr (Some d')
        \<and> d' ''CFTR'' = Some [\<lparr>rec_cds_start = 120, rec_cds_stop = 180,
                                 overlap_start = 150, overlap_stop = 120\<rparr>]"
    using se by simp
  from bounds reversed show ?thesis by blast
qed

theorem overlap_bounds_without_interval_validation_witness:
  "to_residue_interval RESIDUE 50 150 = (50, 150) \<and> (50::int) \<le> 150
   \<and> (\<exists>d. get_grch38_cds_overlap example_translate_identifier example_df 50 150 (Some ''7'') None
             RESIDUE = Inr (Some d)
          \<and> d ''BRAF'' = Some [\<lparr>rec_cds_start = 100, rec_cds_stop = 200,
                                 overlap_start = 100, overlap_stop = 150\<rparr>]
          \<and> (100::int) \<le> 100 \<and> (150::int) \<le> 200
          \<and> ((100::int) \<le> 150) = ((100::int) \<le> 200))"
proof -
  let ?d = "group_by_gene 50 150 (feature_df example_df ''7'' 50 150)"
  let ?rec = "\<lparr>rec_cds_start = 100, rec_cds_stop = 200, overlap_start = 100, overlap_stop = 150\<rparr>"
  have g: "get_grch38_cds_overlap example_translate_identifier example_df 50 150 (Some ''7'') None
             RESIDUE = Inr (Some ?d)"
    by (rule example_query_50_150)
  have se: "to_residue_interval RESIDUE 50 150 = (50, 150) \<and> (50::int) \<le> 150"
    by (simp add: to_residue_interval_def)
  have braf: "?d ''BRAF'' = Some [?rec]"
    by (simp add: group_by_gene_def feature_df_def example_df_def overlap_record_def)
  have "rec_cds_start ?rec \<le> overlap_start ?rec \<and> overlap_stop ?rec \<le> rec_cds_stop ?rec
      \<and> (overlap_start ?rec \<le> overlap_stop ?rec) = (rec_cds_start ?rec \<le> rec_cds_stop ?rec)"
    using overlap_bounds_without_interval_validation [of example_translate_identifier example_df
        50 150 "Some ''7''" None RESIDUE ?d 50 150 "''BRAF''" "[?rec]" ?rec] g se braf
    by simp
  then show ?thesis
    using g se braf by auto
qed

section \<open>The empty chromosome string\<close>

text \<open>
  C10. A call with \<open>chromosome = ""\<close> gives the result of the same call without a
  chromosome: the chromosome is resolved from the identifier when one is given, and the
  error \<open>Must provide either `chromosome` or `identifier`\<close> is raised when the identifier
  is absent or empty.
\<close>

theorem empty_chromosome_is_absent:
  "get_grch38_cds_overlap ti df qs qe (Some '''') ident mode
     = get_grch38_cds_overlap ti df qs qe None ident mode
   \<and> (py_truthy ident = Some i \<longrightarrow>
        resolve_chromosome ti (Some '''') ident = get_chr_from_alt_ac ti i)
   \<and> (py_truthy ident = None \<longrightarrow>
        get_grch38_cds_overlap ti df qs qe (Some '''') ident mode
          = Inl (FeatureOverlapError ''Must provide either `chromosome` or `identifier`''))"
  by (simp add: get_grch38_cds_overlap_def resolve_chromosome_def)

theorem empty_chromosome_is_absent_witness:
  "py_truthy (Some ''NC_000007.14'') = Some ''NC_000007.14''
   \<and> resolve_chromosome example_translate_identifier (Some '''') (Some ''NC_000007.14'') = Inr ''7''
   \<and> py_truthy None = None
   \<and> get_grch38_cds_overlap example_translate_identifier example_df 50 150 (Some '''') None RESIDUE
       = Inl (FeatureOverlapError ''Must provide either `chromosome` or `identifier`'')"
proof -
  note t = empty_chromosome_is_absent [of example_translate_identifier example_df 50 150 _ RESIDUE]
  have a: "py_truthy (Some ''NC_000007.14'') = Some ''NC_000007.14''"
    by simp
  with t [of "Some ''NC_000007.14''" "''NC_000007.14''"]
  have "resolve_chromosome example_translate_identifier (Some []) (Some ''NC_000007.14'')
      = get_chr_from_alt_ac example_translate_identifier ''NC_000007.14''"
    by blast
  then have b: "resolve_chromosome example_translate_identifier (Some []) (Some ''NC_000007.14'')
      = Inr ''7''"
    by (simp only: example_chromosome_of_NC_000007)
  have c: "py_truthy None = None"
    by simp
  with t [of None]
  have "get_grch38_cds_overlap example_translate_identifier example_df 50 150 (Some []) None RESIDUE
       = Inl (FeatureOverlapError ''Must provide either `chromosome` or `identifier`'')"
    by blast
  with a b c show ?thesis by blast
qed

section \<open>Chromosome names of the table\<close>

text \<open>
  C7, the code at the source names \<open>chr1h\<close> and \<open>rchr7\<close>: \<open>strip("chr")\<close> removes the
  characters \<open>c\<close>, \<open>h\<close> and \<open>r\<close> from both ends, so the stored names are \<open>1\<close> and \<open>7\<close>,
  where removing a leading \<open>chr\<close> and cutting at the first \<open>_\<close> gives \<open>1h\<close> and
  \<open>rchr7\<close>. The loader stores the row of \<open>chr1h\<close> under chromosome \<open>1\<close>.
\<close>

theorem strip_removes_more_than_prefix:
  "chromosome_lambda ''chr1h'' = Inr ''1'' \<and> spec_chromosome_name ''chr1h'' = ''1h''
   \<and> chromosome_lambda ''rchr7'' = Inr ''7'' \<and> spec_chromosome_name ''rchr7'' = ''rchr7''
   \<and> load_mane_refseq_gff_data
        [\<lparr>gff_chromosome = ''chr1h'', gff_type = ''CDS'', gff_cds_start = 100, gff_cds_stop = 200,
          gff_info = ''ID=cds-NP_002515.1;Name=NP_002515.1;gene=NRAS''\<rparr>]
      = Inr [\<lparr>ftype = ''CDS'', chromosome = ''1'', cds_start = 100, cds_stop = 200,
               info_name = ''NP_002515.1'', gene = ''NRAS''\<rparr>]"
  by (simp add: chromosome_lambda_def spec_chromosome_name_def py_strip_def py_index0_def
      load_mane_refseq_gff_data_def info_name_lambda_def gene_lambda_def)

section \<open>Reference sequences in the two conventions\<close>

text \<open>
  C8. For an accession of the repository and \<open>1 \<le> s \<le> e\<close> up to the length of its
  sequence, \<open>get_reference_sequence\<close> with \<open>RESIDUE\<close> positions \<open>(s, e)\<close> returns the
  result of \<open>INTER_RESIDUE\<close> positions \<open>(s - 1, e)\<close>: the residues \<open>s\<close> to \<open>e\<close> and no
  error.
\<close>

theorem residue_equals_shifted_inter_residue:
  assumes "seqrepo ac = Some sequence" and "1 \<le> s" and "s \<le> e" and "e \<le> int (length sequence)"
  shows "get_reference_sequence seqrepo ac (Some s) (Some e) RESIDUE
           = get_reference_sequence seqrepo ac (Some (s - 1)) (Some e) INTER_RESIDUE
         \<and> get_reference_sequence seqrepo ac (Some s) (Some e) RESIDUE
           = (take (nat (e - s + 1)) (drop (nat (s - 1)) sequence), None)"
  using assms by (simp add: get_reference_sequence_def Let_def algebra_simps)

theorem residue_equals_shifted_inter_residue_witness:
  "example_seqrepo ''NP_001341538.1'' = Some ''MAALSGGGGG'' \<and> (1::int) \<le> 2 \<and> (2::int) \<le> 4
   \<and> (4::int) \<le> int (length ''MAALSGGGGG'')
   \<and> get_reference_sequence example_seqrepo ''NP_001341538.1'' (Some 2) (Some 4) RESIDUE
       = get_reference_sequence example_seqrepo ''NP_001341538.1'' (Some 1) (Some 4) INTER_RESIDUE
   \<and> get_reference_sequence example_seqrepo ''NP_001341538.1'' (Some 2) (Some 4) RESIDUE
       = (''AAL'', None)"
proof -
  have h: "example_seqrepo ''NP_001341538.1'' = Some ''MAALSGGGGG'' \<and> (1::int) \<le> 2 \<and> (2::int) \<le> 4
      \<and> (4::int) \<le> int (length ''MAALSGGGGG'')"
    by (simp add: example_seqrepo_def)
  have v: "(2::int) - 1 = 1" "take (nat (4 - 2 + 1)) (drop (nat 1) ''MAALSGGGGG'') = ''AAL''"
    by simp_all
  have "get_reference_sequence example_seqrepo ''NP_001341538.1'' (Some 2) (Some 4) RESIDUE
           = get_reference_sequence example_seqrepo ''NP_001341538.1'' (Some (2 - 1)) (Some 4)
               INTER_RESIDUE
         \<and> get_reference_sequence example_seqrepo ''NP_001341538.1'' (Some 2) (Some 4) RESIDUE
           = (take (nat (4 - 2 + 1)) (drop (nat (2 - 1)) ''MAALSGGGGG''), None)"
    using h by (intro residue_equals_shifted_inter_residue) simp_all
  then have "get_reference_sequence example_seqrepo ''NP_001341538.1'' (Some 2) (Some 4) RESIDUE
           = get_reference_sequence example_seqrepo ''NP_001341538.1'' (Some 1) (Some 4) INTER_RESIDUE
      \<and> get_reference_sequence example_seqrepo ''NP_001341538.1'' (Some 2) (Some 4) RESIDUE
           = (''AAL'', None)"
    unfolding v .
  with h show ?thesis
    by blast
qed

end
